theory Spec2Isabelle
  imports Main "HOL-Library.AList"
begin

section \<open>The command shell of repl.py\<close>

text \<open>
  A shallow embedding of \<^verbatim>\<open>src/src/cli/src/repl.py\<close>: the line tokenizer, the typed
  variable store, the session context (configuration file, plugin loading, namespace
  attachment) and the read-eval loop with its navigation stack. Python exceptions are
  values of \<open>error\<close>; a method that mutates its object takes the object and returns
  it, together with the exception it raised, if any.
\<close>

subsection \<open>Exceptions\<close>

datatype error =
    ValueError string
  | IndexError
  | KeyError string
  | TypeError
  | IOError
  | RuntimeError string
  | EOFError
  | SystemExit

text \<open>
  \<^verbatim>\<open>except Exception\<close> catches every exception class but the ones that derive from
  \<^verbatim>\<open>BaseException\<close> directly; of the values above that is \<open>SystemExit\<close>.
\<close>

fun is_Exception :: "error \<Rightarrow> bool" where
  "is_Exception SystemExit = False"
| "is_Exception _ = True"

subsection \<open>Characters and string helpers\<close>

definition dquote :: char where
  "dquote = CHR 0x22"

definition squote :: char where
  "squote = CHR 0x27"

text \<open>The whitespace of \<^verbatim>\<open>shlex\<close>: space, tab, carriage return, line feed.\<close>

definition is_whitespace :: "char \<Rightarrow> bool" where
  "is_whitespace c = (c = CHR '' '' \<or> c = CHR 0x09 \<or> c = CHR 0x0D \<or> c = CHR 0x0A)"

definition is_quote :: "char \<Rightarrow> bool" where
  "is_quote c = (c = squote \<or> c = dquote)"

text \<open>The whitespace of \<^verbatim>\<open>str.strip()\<close> and of \<^verbatim>\<open>int()\<close>: also vertical tab and form feed.\<close>

definition is_space :: "char \<Rightarrow> bool" where
  "is_space c = (is_whitespace c \<or> c = CHR 0x0B \<or> c = CHR 0x0C)"

definition strip :: "string \<Rightarrow> string" where
  "strip s = rev (dropWhile is_space (rev (dropWhile is_space s)))"

text \<open>The slice \<^verbatim>\<open>t[1:-1]\<close>: empty for a string of at most two characters.\<close>

definition unquote :: "string \<Rightarrow> string" where
  "unquote t = butlast (tl t)"

text \<open>The test \<^verbatim>\<open>t[0] == '"' and t[-1] == '"'\<close> on a non-empty string.\<close>

definition quoted :: "string \<Rightarrow> bool" where
  "quoted t = (hd t = dquote \<and> last t = dquote)"

subsection \<open>Word splitting: \<^verbatim>\<open>shlex.split(line, posix=False)\<close>\<close>

text \<open>
  The standard library's lexer in the configuration \<^verbatim>\<open>split\<close> gives it: not POSIX,
  \<^verbatim>\<open>whitespace_split\<close> on, no comment characters. Its state is \<^verbatim>\<open>' '\<close> (between
  words), \<^verbatim>\<open>'a'\<close> (in a word) or the quote character that opened a quoted run. A
  quote that opens a word is kept in the token and its closing quote ends the token; a
  quote inside a word is an ordinary character; the end of the input inside a quoted run
  raises \<^verbatim>\<open>ValueError\<close>.
\<close>

datatype lex_state = Between | InWord | InQuote char

definition emit :: "string \<Rightarrow> error + string list \<Rightarrow> error + string list" where
  "emit t r = (case r of Inl e \<Rightarrow> Inl e | Inr ts \<Rightarrow> Inr (t # ts))"

fun read_tokens :: "lex_state \<Rightarrow> string \<Rightarrow> string \<Rightarrow> error + string list" where
  "read_tokens Between tok [] = Inr []"
| "read_tokens InWord tok [] = (if tok = [] then Inr [] else Inr [tok])"
| "read_tokens (InQuote q) tok [] = Inl (ValueError ''No closing quotation'')"
| "read_tokens Between tok (c # cs) =
     (if is_whitespace c then
        (if tok \<noteq> [] then emit tok (read_tokens Between [] cs)
         else read_tokens Between tok cs)
      else if is_quote c then read_tokens (InQuote c) [c] cs
      else read_tokens InWord [c] cs)"
| "read_tokens InWord tok (c # cs) =
     (if is_whitespace c then
        (if tok \<noteq> [] then emit tok (read_tokens Between [] cs)
         else read_tokens Between tok cs)
      else read_tokens InWord (tok @ [c]) cs)"
| "read_tokens (InQuote q) tok (c # cs) =
     (if c = q then emit (tok @ [c]) (read_tokens Between [] cs)
      else read_tokens (InQuote q) (tok @ [c]) cs)"

definition shlex_split :: "string \<Rightarrow> error + string list" where
  "shlex_split line = read_tokens Between [] line"

subsection \<open>\<^verbatim>\<open>MainLoop.tokenize\<close>\<close>

type_synonym kwargs = "string \<rightharpoonup> string"

text \<open>
  The body of the loop over the tokens. \<^verbatim>\<open>t[0]\<close> and \<^verbatim>\<open>value[0]\<close> raise
  \<^verbatim>\<open>IndexError\<close> on an empty string; \<^verbatim>\<open>t.partition('=')\<close> cuts at the first
  \<^verbatim>\<open>=\<close>.
\<close>

fun tokenize_loop ::
  "string list \<Rightarrow> string list \<Rightarrow> kwargs \<Rightarrow> error + (string list \<times> kwargs)" where
  "tokenize_loop [] args kw = Inr (args, kw)"
| "tokenize_loop (t # ts) args kw =
     (if t = [] then Inl IndexError
      else if quoted t then tokenize_loop ts (args @ [unquote t]) kw
      else if CHR ''='' \<in> set t then
        (let key = takeWhile (\<lambda>c. c \<noteq> CHR ''='') t;
             val = tl (dropWhile (\<lambda>c. c \<noteq> CHR ''='') t)
         in if val = [] then Inl IndexError
            else tokenize_loop ts args
                   (kw(key \<mapsto> (if quoted val then unquote val else val))))
      else tokenize_loop ts (args @ [t]) kw)"

definition tokenize :: "string \<Rightarrow> error + (string list \<times> kwargs)" where
  "tokenize line =
     (case shlex_split line of
        Inl e \<Rightarrow> Inl e
      | Inr tokens \<Rightarrow> tokenize_loop tokens [] Map.empty)"

subsection \<open>\<^verbatim>\<open>VariableStore\<close>\<close>

text \<open>The values a variable holds and the types the store declares.\<close>

datatype pyval = VStr string | VInt int | VBool bool

datatype pytype = TStr | TInt | TBool

text \<open>Python's \<^verbatim>\<open>==\<close> on these values: a boolean equals the integer 0 or 1.\<close>

fun as_int :: "pyval \<Rightarrow> int option" where
  "as_int (VInt i) = Some i"
| "as_int (VBool b) = Some (if b then 1 else 0)"
| "as_int (VStr s) = None"

definition py_eq :: "pyval \<Rightarrow> pyval \<Rightarrow> bool" where
  "py_eq a b =
     (case (as_int a, as_int b) of
        (Some i, Some j) \<Rightarrow> i = j
      | (None, None) \<Rightarrow> a = b
      | _ \<Rightarrow> False)"

text \<open>
  \<^verbatim>\<open>int(value)\<close>. A string is stripped of surrounding whitespace, may carry one sign
  and must then be a non-empty run of decimal digits; anything else raises
  \<^verbatim>\<open>ValueError\<close> (whose message, which quotes the string, is shortened here).
\<close>

definition is_digit :: "char \<Rightarrow> bool" where
  "is_digit c = (48 \<le> (of_char c :: nat) \<and> (of_char c :: nat) \<le> 57)"

definition digits_value :: "string \<Rightarrow> int" where
  "digits_value ds = foldl (\<lambda>n c. 10 * n + (int (of_char c) - 48)) 0 ds"

definition int_of_string :: "string \<Rightarrow> error + int" where
  "int_of_string str =
     (let s = strip str;
          neg = (s \<noteq> [] \<and> hd s = CHR ''-'');
          ds = (if s \<noteq> [] \<and> (hd s = CHR ''-'' \<or> hd s = CHR ''+'') then tl s else s)
      in if ds \<noteq> [] \<and> list_all is_digit ds
         then Inr (if neg then - digits_value ds else digits_value ds)
         else Inl (ValueError ''invalid literal for int() with base 10''))"

fun py_int :: "pyval \<Rightarrow> error + pyval" where
  "py_int (VStr s) = (case int_of_string s of Inl e \<Rightarrow> Inl e | Inr i \<Rightarrow> Inr (VInt i))"
| "py_int (VInt i) = Inr (VInt i)"
| "py_int (VBool b) = Inr (VInt (if b then 1 else 0))"

record variable =
  var_default :: pyval
  var_type :: pytype
  var_choices :: "pyval list option"
  var_value :: pyval

text \<open>\<^verbatim>\<open>Variable.__init__\<close>: the current value starts as the default.\<close>

definition Variable :: "pyval \<Rightarrow> pytype \<Rightarrow> pyval list option \<Rightarrow> variable" where
  "Variable d t c = \<lparr>var_default = d, var_type = t, var_choices = c, var_value = d\<rparr>"

text \<open>
  \<^verbatim>\<open>Variable.set\<close>: coerce when the declared type is \<^verbatim>\<open>int\<close> (the handler re-raises
  the \<^verbatim>\<open>ValueError\<close>), then check the choices. The method ends there: it has no
  assignment to \<^verbatim>\<open>self.value\<close>, so the object it returns is the one it was given.
\<close>

definition Variable_set :: "pyval \<Rightarrow> variable \<Rightarrow> error option \<times> variable" where
  "Variable_set v var =
     (case (if var_type var = TInt then py_int v else Inr v) of
        Inl e \<Rightarrow> (Some e, var)
      | Inr v' \<Rightarrow>
          (case var_choices var of
             Some cs \<Rightarrow>
               if \<not> list_ex (py_eq v') cs
               then (Some (ValueError ''Value not on the list of possible choices''), var)
               else (None, var)
           | None \<Rightarrow> (None, var)))"

type_synonym variable_store = "string \<rightharpoonup> variable"

text \<open>
  \<^verbatim>\<open>VariableStore.__init__\<close>; \<open>lang\<close> is the value of \<^verbatim>\<open>os.environ['LANG']\<close>.
\<close>

definition VariableStore :: "string \<Rightarrow> variable_store" where
  "VariableStore lang = map_of
     [(''output-format'', Variable (VStr ''ascii'') TStr (Some [VStr ''ascii'', VStr ''json''])),
      (''datetime-format'', Variable (VStr ''natural'') TStr None),
      (''language'', Variable (VStr lang) TStr None),
      (''prompt'', Variable (VStr ''{host}:{path}>'') TStr None),
      (''timeout'', Variable (VInt 10) TInt None),
      (''show-events'', Variable (VBool True) TBool None)]"

definition VariableStore_get :: "string \<Rightarrow> variable_store \<Rightarrow> error + pyval" where
  "VariableStore_get name vs =
     (case vs name of None \<Rightarrow> Inl (KeyError name) | Some var \<Rightarrow> Inr (var_value var))"

definition VariableStore_set ::
  "string \<Rightarrow> pyval \<Rightarrow> variable_store \<Rightarrow> error option \<times> variable_store" where
  "VariableStore_set name v vs =
     (case vs name of
        None \<Rightarrow> (Some (KeyError name), vs)
      | Some var \<Rightarrow> (case Variable_set v var of (e, var') \<Rightarrow> (e, vs(name \<mapsto> var'))))"

subsection \<open>Namespaces and commands\<close>

text \<open>
  A command's \<^verbatim>\<open>run(context, args, kwargs)\<close> is code of the plugin that registers it.
  The shell sees of it only whether it returns or raises, so a command is an identifier
  (under which the model records each call) and that outcome as a function of the
  arguments.
\<close>

datatype cmd =
  Command (cmd_id: string) (cmd_run: "string list \<Rightarrow> kwargs \<Rightarrow> error option")

text \<open>
  Modelled from the spec: the classes of \<^verbatim>\<open>namespace.py\<close> (\<^verbatim>\<open>RootNamespace\<close> and the
  namespaces plugins register) are not among the sources. A namespace is a node with two
  lookups, child namespaces by name and commands by name, names unique;
  \<^verbatim>\<open>register_namespace(name, ns)\<close> enters \<open>ns\<close> under \<open>name\<close> among the children.
  The lookups are association lists read with \<open>map_of\<close> and written with
  \<open>AList.update\<close>, which keeps the keys unique.
\<close>

datatype ns =
  Namespace (namespaces: "(string \<times> ns) list") (commands: "(string \<times> cmd) list")

definition RootNamespace :: ns where
  "RootNamespace = Namespace [] []"

definition register_namespace :: "string \<Rightarrow> ns \<Rightarrow> ns \<Rightarrow> ns" where
  "register_namespace name new ptr =
     Namespace (AList.update name new (namespaces ptr)) (commands ptr)"

subsection \<open>\<^verbatim>\<open>Context\<close>\<close>

text \<open>The documents \<^verbatim>\<open>json.load\<close> returns; an object's keys are unique.\<close>

datatype json =
    JNull
  | JBool bool
  | JNum int
  | JStr string
  | JList "json list"
  | JDict "(string \<times> json) list"

datatype log = Debug string | Warn string

text \<open>
  What \<^verbatim>\<open>imp.load_source\<close> yields for a plugin file: the module, of which the context
  uses the two optional hooks. \<^verbatim>\<open>_init(context)\<close> is the plugin's code; it is modelled
  by the \<^verbatim>\<open>attach_namespace\<close> calls it makes, in order, and the exception it ends
  with, if any.
\<close>

datatype hook = Hook (attaches: "(string \<times> ns) list") (raises: "error option")

record plugin =
  p_init :: "hook option"
  p_login :: bool

text \<open>
  The fields of \<^verbatim>\<open>Context\<close> that the methods below read or write. \<open>logger\<close>
  collects the messages given to \<^verbatim>\<open>self.logger\<close>; \<open>executed\<close> is not a field of
  the source: it lists the paths \<^verbatim>\<open>imp.load_source\<close> was called on, that is, the
  units that were executed, in order.
\<close>

record cli_context =
  plugin_dirs :: "json list"
  plugins :: "string \<rightharpoonup> plugin"
  root_ns :: ns
  logger :: "log list"
  executed :: "string list"

definition Context :: cli_context where
  "Context = \<lparr>plugin_dirs = [], plugins = Map.empty, root_ns = RootNamespace,
              logger = [], executed = []\<rparr>"

subsubsection \<open>\<^verbatim>\<open>read_config_file\<close>\<close>

text \<open>
  What \<^verbatim>\<open>open(file, 'r')\<close> followed by \<^verbatim>\<open>json.load(f)\<close> does for the file a path
  names: \<^verbatim>\<open>IOError\<close>, \<^verbatim>\<open>ValueError\<close> with the parser's message, or a document.
\<close>

datatype file_contents = Unreadable | Malformed string | Document json

fun is_substring :: "string \<Rightarrow> string \<Rightarrow> bool" where
  "is_substring k [] = (k = [])"
| "is_substring k (c # cs) = (take (length k) (c # cs) = k \<or> is_substring k cs)"

text \<open>
  \<^verbatim>\<open>key in data\<close> and \<^verbatim>\<open>data[key]\<close> for a string key: membership among the keys
  of an object, among the elements of a list, as a substring of a string, and a
  \<^verbatim>\<open>TypeError\<close> on the other documents; subscripting works on an object only.
\<close>

fun py_in :: "string \<Rightarrow> json \<Rightarrow> error + bool" where
  "py_in k (JDict kvs) = Inr (map_of kvs k \<noteq> None)"
| "py_in k (JList xs) = Inr (List.member xs (JStr k))"
| "py_in k (JStr s) = Inr (is_substring k s)"
| "py_in k _ = Inl TypeError"

fun py_getitem :: "json \<Rightarrow> string \<Rightarrow> error + json" where
  "py_getitem (JDict kvs) k =
     (case map_of kvs k of None \<Rightarrow> Inl (KeyError k) | Some v \<Rightarrow> Inr v)"
| "py_getitem _ k = Inl TypeError"

definition add_plugin_dirs :: "json \<Rightarrow> cli_context \<Rightarrow> error option \<times> cli_context" where
  "add_plugin_dirs data ctx =
     (case py_in ''cli'' data of
        Inl e \<Rightarrow> (Some e, ctx)
      | Inr False \<Rightarrow> (None, ctx)
      | Inr True \<Rightarrow>
          (case py_getitem data ''cli'' of
             Inl e \<Rightarrow> (Some e, ctx)
           | Inr cli \<Rightarrow>
               (case py_in ''plugin-dirs'' cli of
                  Inl e \<Rightarrow> (Some e, ctx)
                | Inr False \<Rightarrow> (None, ctx)
                | Inr True \<Rightarrow>
                    (case py_getitem cli ''plugin-dirs'' of
                       Inl e \<Rightarrow> (Some e, ctx)
                     | Inr (JList dirs) \<Rightarrow>
                         (None, ctx\<lparr>plugin_dirs := plugin_dirs ctx @ dirs\<rparr>)
                     | Inr _ \<Rightarrow> (None, ctx)))))"

text \<open>
  \<^verbatim>\<open>read_config_file\<close>; the argument stands for the file the path names. The
  handler of the \<^verbatim>\<open>try\<close> block catches \<^verbatim>\<open>IOError\<close> and \<^verbatim>\<open>ValueError\<close> and
  re-raises them.
\<close>

definition read_config_file :: "file_contents \<Rightarrow> cli_context \<Rightarrow> error option \<times> cli_context" where
  "read_config_file file ctx =
     (case file of
        Unreadable \<Rightarrow> (Some IOError, ctx)
      | Malformed msg \<Rightarrow> (Some (ValueError msg), ctx)
      | Document data \<Rightarrow> add_plugin_dirs data ctx)"

subsubsection \<open>\<^verbatim>\<open>attach_namespace\<close>\<close>

text \<open>\<^verbatim>\<open>str.split(sep)\<close>: every occurrence of the separator cuts; the result is never empty.\<close>

fun split_from :: "char \<Rightarrow> string \<Rightarrow> string \<Rightarrow> string list" where
  "split_from sep cur [] = [cur]"
| "split_from sep cur (c # cs) =
     (if c = sep then cur # split_from sep [] cs else split_from sep (cur @ [c]) cs)"

definition py_split :: "char \<Rightarrow> string \<Rightarrow> string list" where
  "py_split sep s = split_from sep [] s"

text \<open>
  The walk of \<^verbatim>\<open>attach_namespace\<close> from \<open>ptr\<close> through the segments
  \<^verbatim>\<open>splitpath[1:-1]\<close>, and the registration at its end. The source mutates the
  namespace the walk ends in; here the tree is rebuilt along the walk, each visited
  child put back under its name. \<open>None\<close> is the early return.
\<close>

fun attach_walk :: "string list \<Rightarrow> string \<Rightarrow> ns \<Rightarrow> ns \<Rightarrow> ns option" where
  "attach_walk [] name new ptr = Some (register_namespace name new ptr)"
| "attach_walk (n # rest) name new ptr =
     (case map_of (namespaces ptr) n of
        None \<Rightarrow> None
      | Some child \<Rightarrow>
          (case attach_walk rest name new child of
             None \<Rightarrow> None
           | Some child' \<Rightarrow>
               Some (Namespace (AList.update n child' (namespaces ptr)) (commands ptr))))"

definition attach_namespace :: "string \<Rightarrow> ns \<Rightarrow> cli_context \<Rightarrow> cli_context" where
  "attach_namespace path new ctx =
     (let splitpath = py_split CHR ''/'' path in
      case attach_walk (butlast (tl splitpath)) (last splitpath) new (root_ns ctx) of
        None \<Rightarrow> ctx\<lparr>logger := logger ctx @ [Warn (''Cannot attach to namespace '' @ path)]\<rparr>
      | Some root' \<Rightarrow> ctx\<lparr>root_ns := root'\<rparr>)"

subsubsection \<open>\<^verbatim>\<open>__try_load_plugin\<close>\<close>

definition run_init :: "hook \<Rightarrow> cli_context \<Rightarrow> error option \<times> cli_context" where
  "run_init h ctx = (raises h, fold (\<lambda>(p, n). attach_namespace p n) (attaches h) ctx)"

text \<open>
  \<open>loaded\<close> is what \<^verbatim>\<open>imp.load_source('plugin', path)\<close> does at this call: it
  executes the file and returns the module, or raises. The assignment to
  \<^verbatim>\<open>self.plugins[path]\<close> stands in the branch of \<^verbatim>\<open>hasattr(plugin, '_init')\<close>,
  after the call of the hook.
\<close>

definition try_load_plugin ::
  "error + plugin \<Rightarrow> string \<Rightarrow> cli_context \<Rightarrow> error option \<times> cli_context" where
  "try_load_plugin loaded p ctx =
     (if plugins ctx p \<noteq> None then (None, ctx)
      else
        let ctx1 = ctx\<lparr>logger := logger ctx @ [Debug (''Loading plugin from '' @ p)],
                       executed := executed ctx @ [p]\<rparr>
        in case loaded of
             Inl e \<Rightarrow> (Some e, ctx1)
           | Inr plugin \<Rightarrow>
               (case p_init plugin of
                  None \<Rightarrow> (None, ctx1)
                | Some h \<Rightarrow>
                    (case run_init h ctx1 of
                       (Some e, ctx2) \<Rightarrow> (Some e, ctx2)
                     | (None, ctx2) \<Rightarrow>
                         (None, ctx2\<lparr>plugins := (plugins ctx2)(p \<mapsto> plugin)\<rparr>))))"

subsection \<open>\<^verbatim>\<open>MainLoop\<close>\<close>

record PathItem =
  name :: string
  ns :: ns

text \<open>
  What the loop prints or runs, in order: a call of a command's \<^verbatim>\<open>run\<close> with its
  positional and keyword arguments, the report of a caught exception, and the
  message of a token that names nothing.
\<close>

datatype event =
    Run string "string list" kwargs
  | PrintError error
  | PrintNotFound

text \<open>
  Modelled from the spec: \<^verbatim>\<open>output_lock\<close> comes from \<^verbatim>\<open>output.py\<close>, which is not
  among the sources; it is the one mutex of all terminal output. \<open>output_lock\<close>
  counts the acquisitions that no release has matched yet, so the lock is free when it
  is 0.

  The other fields are those of \<^verbatim>\<open>MainLoop\<close>: \<open>root_path\<close> and \<open>path\<close>, the
  navigation stack. \<open>events\<close> collects the events.
\<close>

record mainloop =
  root_path :: "PathItem list"
  path :: "PathItem list"
  output_lock :: nat
  events :: "event list"

text \<open>
  \<^verbatim>\<open>MainLoop.__init__\<close>, for a context with the given host name and root namespace.
\<close>

definition MainLoop :: "string \<Rightarrow> ns \<Rightarrow> mainloop" where
  "MainLoop hostname root =
     \<lparr>root_path = [\<lparr>name = hostname, ns = root\<rparr>],
      path = [\<lparr>name = hostname, ns = root\<rparr>],
      output_lock = 0, events = []\<rparr>"

text \<open>
  The classes \<^verbatim>\<open>ExitCommand\<close>, \<^verbatim>\<open>SetenvCommand\<close> and \<^verbatim>\<open>PrintenvCommand\<close> of
  \<^verbatim>\<open>commands.py\<close> are not among the sources: the three instances are a parameter.
  The names they are registered under are the source's.
\<close>

record builtins =
  ExitCommand :: cmd
  SetenvCommand :: cmd
  PrintenvCommand :: cmd

definition builtin_commands :: "builtins \<Rightarrow> (string \<times> cmd) list" where
  "builtin_commands B =
     [(''exit'', ExitCommand B), (''setenv'', SetenvCommand B), (''printenv'', PrintenvCommand B)]"

definition cd :: "string \<Rightarrow> ns \<Rightarrow> mainloop \<Rightarrow> mainloop" where
  "cd n s ml = ml\<lparr>path := path ml @ [\<lparr>name = n, ns = s\<rparr>]\<rparr>"

definition emit_event :: "event \<Rightarrow> mainloop \<Rightarrow> mainloop" where
  "emit_event e ml = ml\<lparr>events := events ml @ [e]\<rparr>"

definition acquire :: "mainloop \<Rightarrow> mainloop" where
  "acquire ml = ml\<lparr>output_lock := Suc (output_lock ml)\<rparr>"

definition release :: "mainloop \<Rightarrow> mainloop" where
  "release ml = ml\<lparr>output_lock := output_lock ml - 1\<rparr>"

text \<open>
  The second \<^verbatim>\<open>for\<close> loop of the \<^verbatim>\<open>try\<close> block: the token against the commands of
  the current namespace, which is the child just entered when the first loop found
  one. The result is the exception that leaves \<^verbatim>\<open>repl\<close> (if any), whether the
  \<^verbatim>\<open>while\<close> loop goes on to the next token, and the loop's state. A raising
  \<^verbatim>\<open>run\<close> skips the release; the handler of \<^verbatim>\<open>except Exception\<close> prints and breaks.
\<close>

definition try_command ::
  "string \<Rightarrow> string list \<Rightarrow> kwargs \<Rightarrow> PathItem list \<Rightarrow> bool \<Rightarrow> mainloop
     \<Rightarrow> error option \<times> bool \<times> mainloop" where
  "try_command token tokens kw oldpath nsfound ml =
     (case map_of (commands (ns (last (path ml)))) token of
        Some c \<Rightarrow>
          (let ml1 = emit_event (Run (cmd_id c) tokens kw) (acquire ml) in
           case cmd_run c tokens kw of
             Some err \<Rightarrow>
               if is_Exception err then (None, False, emit_event (PrintError err) ml1)
               else (Some err, False, ml1)
           | None \<Rightarrow> (None, False, (release ml1)\<lparr>path := oldpath\<rparr>))
      | None \<Rightarrow>
          if \<not> nsfound then (None, False, emit_event PrintNotFound ml)
          else (None, True, ml))"

text \<open>
  The \<^verbatim>\<open>while tokens\<close> loop. A builtin runs outside the \<^verbatim>\<open>try\<close> block, without the
  lock, and ends the line; an exception it raises leaves \<^verbatim>\<open>repl\<close>. \<^verbatim>\<open>self.cwd\<close>
  is \<^verbatim>\<open>self.path[-1]\<close>, an \<^verbatim>\<open>IndexError\<close> inside the \<^verbatim>\<open>try\<close> block on an empty
  stack.
\<close>

fun dispatch ::
  "builtins \<Rightarrow> string list \<Rightarrow> kwargs \<Rightarrow> PathItem list \<Rightarrow> mainloop
     \<Rightarrow> error option \<times> mainloop" where
  "dispatch B [] kw oldpath ml = (None, ml)"
| "dispatch B (token # tokens) kw oldpath ml =
     (case map_of (builtin_commands B) token of
        Some b \<Rightarrow> (cmd_run b tokens kw, emit_event (Run (cmd_id b) tokens kw) ml)
      | None \<Rightarrow>
          if path ml = [] then (None, emit_event (PrintError IndexError) ml)
          else
            (let found = map_of (namespaces (ns (last (path ml)))) token;
                 ml1 = (case found of Some child \<Rightarrow> cd token child ml | None \<Rightarrow> ml)
             in case try_command token tokens kw oldpath (found \<noteq> None) ml1 of
                  (err, True, ml2) \<Rightarrow> dispatch B tokens kw oldpath ml2
                | (err, False, ml2) \<Rightarrow> (err, ml2)))"

text \<open>
  One turn of the \<^verbatim>\<open>while True\<close> loop of \<^verbatim>\<open>repl\<close>, from the string \<^verbatim>\<open>raw_input\<close>
  returned to the point where the loop reads again. \<^verbatim>\<open>tokenize\<close> is called outside
  the \<^verbatim>\<open>try\<close> block.
\<close>

definition repl_line :: "builtins \<Rightarrow> string \<Rightarrow> mainloop \<Rightarrow> error option \<times> mainloop" where
  "repl_line B raw ml =
     (let line = strip raw in
      if line = [] then (None, ml)
      else
        (let ml1 = (if hd line = CHR ''/'' then ml\<lparr>path := root_path ml\<rparr> else ml);
             line1 = (if hd line = CHR ''/'' then tl line else line)
         in if line1 = ''..'' \<and> length (path ml1) > 1
            then (None, ml1\<lparr>path := butlast (path ml1)\<rparr>)
            else
              (case tokenize line1 of
                 Inl e \<Rightarrow> (Some e, ml1)
               | Inr (tokens, kw) \<Rightarrow> dispatch B tokens kw (path ml1) ml1)))"

text \<open>
  \<^verbatim>\<open>repl\<close> on the lines the terminal delivers. The loop has no exit of its own: it
  ends with the exception that leaves it, \<^verbatim>\<open>EOFError\<close> from \<^verbatim>\<open>raw_input\<close> when the
  input is exhausted.
\<close>

fun repl :: "builtins \<Rightarrow> string list \<Rightarrow> mainloop \<Rightarrow> error \<times> mainloop" where
  "repl B [] ml = (EOFError, ml)"
| "repl B (raw # rest) ml =
     (case repl_line B raw ml of
        (Some e, ml') \<Rightarrow> (e, ml')
      | (None, ml') \<Rightarrow> repl B rest ml')"

subsection \<open>Notions the properties are stated with\<close>

text \<open>
  The tokenizer as the specification words it: each token is one item. A token whose
  first and last characters are the double quote is a positional argument, without them.
  A token with an equals sign is a keyword argument, cut at the first equals sign, its
  value without the quotes when it is quoted. Any other token is a positional argument
  as it stands. The positional arguments keep their order; of two keyword arguments
  with one key the later wins.
\<close>

datatype item = Positional string | Keyword string string

definition is_quoted :: "string \<Rightarrow> bool" where
  "is_quoted s = (s \<noteq> [] \<and> hd s = dquote \<and> last s = dquote)"

definition before_eq :: "string \<Rightarrow> string" where
  "before_eq t = takeWhile (\<lambda>c. c \<noteq> CHR ''='') t"

definition after_eq :: "string \<Rightarrow> string" where
  "after_eq t = tl (dropWhile (\<lambda>c. c \<noteq> CHR ''='') t)"

definition spec_item :: "string \<Rightarrow> item" where
  "spec_item t =
     (if is_quoted t then Positional (unquote t)
      else if CHR ''='' \<in> set t then
        Keyword (before_eq t) (if is_quoted (after_eq t) then unquote (after_eq t) else after_eq t)
      else Positional t)"

fun positional_args :: "item list \<Rightarrow> string list" where
  "positional_args [] = []"
| "positional_args (Positional s # its) = s # positional_args its"
| "positional_args (Keyword k v # its) = positional_args its"

fun keyword_args :: "item list \<Rightarrow> kwargs \<Rightarrow> kwargs" where
  "keyword_args [] kw = kw"
| "keyword_args (Positional s # its) kw = keyword_args its kw"
| "keyword_args (Keyword k v # its) kw = keyword_args its (kw(k \<mapsto> v))"

text \<open>A keyword token with nothing after its first equals sign, as in \<^verbatim>\<open>key=\<close>.\<close>

definition empty_value :: "string \<Rightarrow> bool" where
  "empty_value t = (\<not> is_quoted t \<and> CHR ''='' \<in> set t \<and> after_eq t = [])"

text \<open>
  The namespace a list of segments leads to from \<open>ptr\<close>, each segment a child of the
  namespace reached so far; \<open>None\<close> when a segment is not a known child there.
\<close>

fun resolve :: "string list \<Rightarrow> ns \<Rightarrow> ns option" where
  "resolve [] ptr = Some ptr"
| "resolve (n # rest) ptr =
     (case map_of (namespaces ptr) n of None \<Rightarrow> None | Some child \<Rightarrow> resolve rest child)"

text \<open>
  The segments \<^verbatim>\<open>attach_namespace\<close> walks, \<^verbatim>\<open>splitpath[1:-1]\<close>: those between the
  first segment (empty, for a path that starts with a slash) and the last, and the last
  segment, the name to register.
\<close>

definition intermediate :: "string \<Rightarrow> string list" where
  "intermediate p = butlast (tl (py_split CHR ''/'' p))"

definition final_segment :: "string \<Rightarrow> string" where
  "final_segment p = last (py_split CHR ''/'' p)"

text \<open>
  The tree of the end-to-end scenario: a root with one child namespace \<^verbatim>\<open>foo\<close> that
  holds one command \<^verbatim>\<open>bar\<close>, whose \<^verbatim>\<open>run\<close> is \<open>run\<close>.
\<close>

definition foo_bar_root :: "(string list \<Rightarrow> kwargs \<Rightarrow> error option) \<Rightarrow> ns" where
  "foo_bar_root run = Namespace [(''foo'', Namespace [] [(''bar'', Command ''bar'' run)])] []"

text \<open>A root whose only entry is a command \<^verbatim>\<open>boom\<close> that raises \<^verbatim>\<open>RuntimeError\<close>.\<close>

definition boom_root :: ns where
  "boom_root =
     Namespace [] [(''boom'', Command ''boom'' (\<lambda>args kw. Some (RuntimeError ''boom'')))]"

text \<open>A root whose only entry is a child namespace named \<^verbatim>\<open>..\<close>, itself empty.\<close>

definition dotdot_root :: ns where
  "dotdot_root = Namespace [(''..'', Namespace [] [])] []"

text \<open>Three builtin instances, for concrete runs: \<^verbatim>\<open>exit\<close> raises \<^verbatim>\<open>SystemExit\<close>.\<close>

definition some_builtins :: builtins where
  "some_builtins =
     \<lparr>ExitCommand = Command ''exit'' (\<lambda>args kw. Some SystemExit),
      SetenvCommand = Command ''setenv'' (\<lambda>args kw. None),
      PrintenvCommand = Command ''printenv'' (\<lambda>args kw. None)\<rparr>"

section \<open>Properties\<close>

lemmas char_defs = dquote_def squote_def is_whitespace_def is_quote_def is_space_def

lemmas tokenize_defs = tokenize_def shlex_split_def emit_def quoted_def unquote_def

lemmas loop_defs = repl_line_def strip_def try_command_def builtin_commands_def cd_def
  emit_event_def acquire_def release_def Let_def

subsection \<open>The tokenizer\<close>

text \<open>The word splitter never yields an empty token, so \<^verbatim>\<open>t[0]\<close> is always defined.\<close>

lemma read_tokens_nonempty:
  "read_tokens st tok s = Inr ts \<Longrightarrow> (st \<noteq> Between \<longrightarrow> tok \<noteq> []) \<Longrightarrow> [] \<notin> set ts"
proof (induction st tok s arbitrary: ts rule: read_tokens.induct)
  case (1 tok)
  then show ?case by simp
next
  case (2 tok)
  then show ?case by auto
next
  case (3 q tok)
  then show ?case by simp
next
  case (4 tok c cs)
  then show ?case
    by (auto simp: emit_def split: if_splits sum.splits)
next
  case (5 tok c cs)
  then show ?case
    by (auto simp: emit_def split: if_splits sum.splits)
next
  case (6 q tok c cs)
  then show ?case
    by (auto simp: emit_def split: if_splits sum.splits)
qed

lemma shlex_split_nonempty: "shlex_split line = Inr ts \<Longrightarrow> [] \<notin> set ts"
  using read_tokens_nonempty[of Between "[]" line ts] by (simp add: shlex_split_def)

lemma quoted_is_quoted: "t \<noteq> [] \<Longrightarrow> quoted t = is_quoted t"
  by (simp add: quoted_def is_quoted_def)

text \<open>One turn of the loop over the tokens, on a non-empty token.\<close>

lemma tokenize_loop_Cons:
  assumes "t \<noteq> []"
  shows "tokenize_loop (t # ts) args kw =
     (if is_quoted t then tokenize_loop ts (args @ [unquote t]) kw
      else if CHR ''='' \<in> set t then
        (if after_eq t = [] then Inl IndexError
         else tokenize_loop ts args
                (kw(before_eq t \<mapsto>
                  (if is_quoted (after_eq t) then unquote (after_eq t) else after_eq t))))
      else tokenize_loop ts (args @ [t]) kw)"
proof (cases "after_eq t = []")
  case True
  then show ?thesis using assms
    by (simp add: quoted_is_quoted before_eq_def after_eq_def Let_def)
next
  case False
  then have "quoted (after_eq t) = is_quoted (after_eq t)"
    by (rule quoted_is_quoted)
  then show ?thesis using False assms
    by (simp add: quoted_is_quoted before_eq_def after_eq_def Let_def)
qed

lemma tokenize_loop_item:
  assumes "t \<noteq> []" and "\<not> empty_value t"
  shows "tokenize_loop (t # ts) args kw =
     (case spec_item t of
        Positional s \<Rightarrow> tokenize_loop ts (args @ [s]) kw
      | Keyword k v \<Rightarrow> tokenize_loop ts args (kw(k \<mapsto> v)))"
proof (cases "is_quoted t")
  case True
  then show ?thesis
    by (simp add: tokenize_loop_Cons[OF assms(1)] spec_item_def del: tokenize_loop.simps)
next
  case nq: False
  show ?thesis
  proof (cases "CHR ''='' \<in> set t")
    case True
    then have "after_eq t \<noteq> []" using assms(2) nq by (simp add: empty_value_def)
    then show ?thesis using nq True
      by (simp add: tokenize_loop_Cons[OF assms(1)] spec_item_def del: tokenize_loop.simps)
  next
    case False
    then show ?thesis using nq
      by (simp add: tokenize_loop_Cons[OF assms(1)] spec_item_def del: tokenize_loop.simps)
  qed
qed

text \<open>
  Where no token is a keyword with an empty value, the loop returns what the
  specification's rules give, token by token.
\<close>

lemma tokenize_loop_spec:
  "[] \<notin> set ts \<Longrightarrow> \<not> list_ex empty_value ts \<Longrightarrow>
   tokenize_loop ts args kw =
     Inr (args @ positional_args (map spec_item ts), keyword_args (map spec_item ts) kw)"
proof (induction ts arbitrary: args kw)
  case Nil
  then show ?case by simp
next
  case (Cons t ts)
  then have t: "t \<noteq> []" and e: "\<not> empty_value t"
    and ts: "[] \<notin> set ts" "\<not> list_ex empty_value ts"
    by auto
  show ?case
  proof (cases "spec_item t")
    case (Positional s)
    then show ?thesis
      using tokenize_loop_item[OF t e, of ts args kw] Cons.IH[OF ts, of "args @ [s]" kw]
      by (simp del: tokenize_loop.simps)
  next
    case (Keyword k v)
    then show ?thesis
      using tokenize_loop_item[OF t e, of ts args kw] Cons.IH[OF ts, of args "kw(k \<mapsto> v)"]
      by (simp del: tokenize_loop.simps fun_upd_apply)
  qed
qed

text \<open>One keyword token with an empty value anywhere in the line makes the loop raise.\<close>

lemma tokenize_loop_raises:
  "[] \<notin> set ts \<Longrightarrow> list_ex empty_value ts \<Longrightarrow> tokenize_loop ts args kw = Inl IndexError"
proof (induction ts arbitrary: args kw)
  case Nil
  then show ?case by simp
next
  case (Cons t ts)
  then have t: "t \<noteq> []" and ts: "[] \<notin> set ts" by auto
  show ?case
  proof (cases "empty_value t")
    case True
    then show ?thesis
      by (simp add: tokenize_loop_Cons[OF t] empty_value_def del: tokenize_loop.simps)
  next
    case False
    then have "list_ex empty_value ts" using Cons.prems by simp
    from Cons.IH[OF ts this] show ?thesis
      by (simp add: tokenize_loop_Cons[OF t] del: tokenize_loop.simps)
  qed
qed

text \<open>
  The result of \<^verbatim>\<open>tokenize\<close> on every line the word splitter accepts: the
  specification's positional sequence and keyword mapping, unless a keyword token has
  an empty value, and \<^verbatim>\<open>IndexError\<close> then.
\<close>

lemma tokenize_result:
  "shlex_split line = Inr ts \<Longrightarrow>
   tokenize line =
     (if list_ex empty_value ts then Inl IndexError
      else Inr (positional_args (map spec_item ts), keyword_args (map spec_item ts) Map.empty))"
  using shlex_split_nonempty[of line ts]
  by (simp add: tokenize_def tokenize_loop_raises tokenize_loop_spec)

text \<open>The specification's example line, \<^verbatim>\<open>a b=c "d e"\<close>.\<close>

lemma tokenize_example:
  "tokenize (''a b=c '' @ [dquote] @ ''d e'' @ [dquote]) =
     Inr ([''a'', ''d e''], [''b'' \<mapsto> ''c''])"
  by (simp add: tokenize_defs char_defs)

text \<open>
  C3. The rules of the tokenizer say that a token with an equals sign is cut at the
  first one and enters the keyword mapping. On the line \<^verbatim>\<open>a k=\<close> the word splitter
  gives the tokens \<^verbatim>\<open>a\<close> and \<^verbatim>\<open>k=\<close>, for which the rules give the positional
  sequence \<^verbatim>\<open>["a"]\<close> and the mapping of \<^verbatim>\<open>k\<close> to the empty string; the code raises
  \<^verbatim>\<open>IndexError\<close> at \<^verbatim>\<open>value[0]\<close> instead. On the example line, and on every line
  without such a token, the code follows the rules (\<open>tokenize_example\<close>,
  \<open>tokenize_result\<close>).
\<close>

theorem tokenize_keyword_empty_value:
  "shlex_split ''a k='' = Inr [''a'', ''k='']
   \<and> positional_args (map spec_item [''a'', ''k='']) = [''a'']
   \<and> keyword_args (map spec_item [''a'', ''k='']) Map.empty = [''k'' \<mapsto> []]
   \<and> tokenize ''a k='' = Inl IndexError"
  by (simp add: tokenize_defs char_defs spec_item_def is_quoted_def after_eq_def before_eq_def)

text \<open>
  C10. \<^verbatim>\<open>tokenize\<close> is to return a pair for every line the word splitter accepts. The
  line \<^verbatim>\<open>key=\<close> is accepted, as the single token \<^verbatim>\<open>key=\<close>, and \<^verbatim>\<open>tokenize\<close> raises
  \<^verbatim>\<open>IndexError\<close> on it: the value after the equals sign is empty and the code reads
  its first character.
\<close>

theorem tokenize_raises_on_empty_value:
  "shlex_split ''key='' = Inr [''key=''] \<and> tokenize ''key='' = Inl IndexError"
  by (simp add: tokenize_defs char_defs)

subsection \<open>The variable store\<close>

text \<open>\<^verbatim>\<open>Variable.set\<close> and \<^verbatim>\<open>VariableStore.set\<close> return the object they were given.\<close>

lemma Variable_set_same: "snd (Variable_set v var) = var"
  by (simp add: Variable_set_def split: sum.splits option.splits)

lemma VariableStore_set_same: "snd (VariableStore_set n v vs) = vs"
proof (cases "vs n")
  case None
  then show ?thesis by (simp add: VariableStore_set_def)
next
  case (Some var)
  obtain e where "Variable_set v var = (e, var)"
    using Variable_set_same[of v var] by (cases "Variable_set v var") simp
  then show ?thesis using Some by (simp add: VariableStore_set_def map_upd_triv)
qed

lemma VariableStore_timeout:
  "VariableStore lang ''timeout'' = Some (Variable (VInt 10) TInt None)"
  by (simp add: VariableStore_def)

lemma VariableStore_output_format:
  "VariableStore lang ''output-format'' =
     Some (Variable (VStr ''ascii'') TStr (Some [VStr ''ascii'', VStr ''json'']))"
  by (simp add: VariableStore_def)

lemma int_of_string_5: "int_of_string ''5'' = Inr 5"
  by (simp add: int_of_string_def strip_def is_digit_def digits_value_def char_defs)

lemma int_of_string_abc:
  "int_of_string ''abc'' = Inl (ValueError ''invalid literal for int() with base 10'')"
  by (simp add: int_of_string_def strip_def is_digit_def char_defs)

text \<open>
  C1. After \<^verbatim>\<open>set('timeout', '5')\<close> on the store as constructed,
  \<^verbatim>\<open>get('timeout')\<close> is to return the integer 5. The call succeeds (the string is
  coerced and passes the checks), but \<^verbatim>\<open>Variable.set\<close> never assigns the coerced
  value: \<^verbatim>\<open>get('timeout')\<close> still returns the default, 10.
\<close>

theorem set_timeout_then_get:
  "fst (VariableStore_set ''timeout'' (VStr ''5'') (VariableStore lang)) = None
   \<and> VariableStore_get ''timeout''
        (snd (VariableStore_set ''timeout'' (VStr ''5'') (VariableStore lang))) = Inr (VInt 10)"
proof
  show "fst (VariableStore_set ''timeout'' (VStr ''5'') (VariableStore lang)) = None"
    by (simp add: VariableStore_set_def VariableStore_timeout Variable_set_def Variable_def
        int_of_string_5)
  show "VariableStore_get ''timeout''
          (snd (VariableStore_set ''timeout'' (VStr ''5'') (VariableStore lang))) = Inr (VInt 10)"
    by (simp add: VariableStore_set_same VariableStore_get_def VariableStore_timeout Variable_def)
qed

text \<open>
  C7. In any store that declares \<^verbatim>\<open>timeout\<close> an integer and \<^verbatim>\<open>output-format\<close> a
  string with the choices \<^verbatim>\<open>ascii\<close> and \<^verbatim>\<open>json\<close>, whatever the current values:
  \<^verbatim>\<open>set('timeout', 'abc')\<close> fails with the error of the coercion to the declared type
  (Python's \<^verbatim>\<open>ValueError\<close>, raised by \<^verbatim>\<open>int\<close>), \<^verbatim>\<open>set('output-format', 'xml')\<close>
  fails with the error of the choice constraint, and each leaves the store, hence the
  prior value that \<^verbatim>\<open>get\<close> returns, unchanged.
\<close>

theorem set_invalid_fails_and_keeps_value:
  assumes "vs ''timeout'' = Some tv" and "var_type tv = TInt"
    and "vs ''output-format'' = Some ov" and "var_type ov = TStr"
    and "var_choices ov = Some [VStr ''ascii'', VStr ''json'']"
  shows "VariableStore_set ''timeout'' (VStr ''abc'') vs =
           (Some (ValueError ''invalid literal for int() with base 10''), vs)
       \<and> VariableStore_set ''output-format'' (VStr ''xml'') vs =
           (Some (ValueError ''Value not on the list of possible choices''), vs)
       \<and> VariableStore_get ''timeout'' (snd (VariableStore_set ''timeout'' (VStr ''abc'') vs)) =
           Inr (var_value tv)
       \<and> VariableStore_get ''output-format''
           (snd (VariableStore_set ''output-format'' (VStr ''xml'') vs)) = Inr (var_value ov)"
  using assms
  by (simp add: VariableStore_set_def VariableStore_get_def Variable_set_def int_of_string_abc
      py_eq_def map_upd_triv)

theorem set_invalid_fails_and_keeps_value_witness:
  "VariableStore ''C'' ''timeout'' = Some (Variable (VInt 10) TInt None)
   \<and> VariableStore ''C'' ''output-format'' =
       Some (Variable (VStr ''ascii'') TStr (Some [VStr ''ascii'', VStr ''json'']))
   \<and> VariableStore_set ''timeout'' (VStr ''abc'') (VariableStore ''C'') =
       (Some (ValueError ''invalid literal for int() with base 10''), VariableStore ''C'')
   \<and> VariableStore_set ''output-format'' (VStr ''xml'') (VariableStore ''C'') =
       (Some (ValueError ''Value not on the list of possible choices''), VariableStore ''C'')
   \<and> VariableStore_get ''timeout''
       (snd (VariableStore_set ''timeout'' (VStr ''abc'') (VariableStore ''C''))) = Inr (VInt 10)
   \<and> VariableStore_get ''output-format''
       (snd (VariableStore_set ''output-format'' (VStr ''xml'') (VariableStore ''C''))) =
       Inr (VStr ''ascii'')"
proof -
  have t: "VariableStore ''C'' ''timeout'' = Some (Variable (VInt 10) TInt None)"
    by (rule VariableStore_timeout)
  have tt: "var_type (Variable (VInt 10) TInt None) = TInt"
    by (simp add: Variable_def)
  have f: "VariableStore ''C'' ''output-format'' =
      Some (Variable (VStr ''ascii'') TStr (Some [VStr ''ascii'', VStr ''json'']))"
    by (rule VariableStore_output_format)
  have ft: "var_type (Variable (VStr ''ascii'') TStr (Some [VStr ''ascii'', VStr ''json''])) = TStr"
    by (simp add: Variable_def)
  have fc: "var_choices (Variable (VStr ''ascii'') TStr (Some [VStr ''ascii'', VStr ''json''])) =
      Some [VStr ''ascii'', VStr ''json'']"
    by (simp add: Variable_def)
  have v: "var_value (Variable (VInt 10) TInt None) = VInt 10"
    "var_value (Variable (VStr ''ascii'') TStr (Some [VStr ''ascii'', VStr ''json''])) = VStr ''ascii''"
    by (simp_all add: Variable_def)
  from set_invalid_fails_and_keeps_value[OF t tt f ft fc] t f
  show ?thesis unfolding v by blast
qed

subsection \<open>The configuration file\<close>

text \<open>
  C5, as the claim states it: reading an unreadable file is to fall back to the defaults
  without an error for the caller. On the context as constructed the call ends with
  \<^verbatim>\<open>IOError\<close>.
\<close>

theorem read_config_file_unreadable_raises:
  "fst (read_config_file Unreadable Context) = Some IOError"
  by (simp add: read_config_file_def)

text \<open>
  C5, amended. For every file whose open or JSON parse fails, \<^verbatim>\<open>read_config_file\<close>
  hands the error to its caller, \<^verbatim>\<open>IOError\<close> for the open and \<^verbatim>\<open>ValueError\<close> for the
  parse, and leaves the context, the list of plugin directories included, unchanged.
\<close>

theorem read_config_file_failure_propagates:
  "read_config_file Unreadable ctx = (Some IOError, ctx)
   \<and> read_config_file (Malformed msg) ctx = (Some (ValueError msg), ctx)
   \<and> plugin_dirs (snd (read_config_file Unreadable ctx)) = plugin_dirs ctx
   \<and> plugin_dirs (snd (read_config_file (Malformed msg) ctx)) = plugin_dirs ctx"
  by (simp add: read_config_file_def)

subsection \<open>Attaching namespaces\<close>

lemma attach_walk_None: "resolve segs ptr = None \<Longrightarrow> attach_walk segs nm new ptr = None"
  by (induction segs arbitrary: ptr) (auto split: option.splits)

lemma attach_walk_Some:
  "resolve segs ptr = Some parent \<Longrightarrow>
   \<exists>ptr'. attach_walk segs nm new ptr = Some ptr' \<and>
          resolve segs ptr' = Some (register_namespace nm new parent)"
proof (induction segs arbitrary: ptr)
  case Nil
  then show ?case by simp
next
  case (Cons n rest)
  then show ?case
    by (fastforce simp: update_conv' split: option.splits)
qed

lemma resolve_append:
  "resolve (xs @ ys) ptr = (case resolve xs ptr of None \<Rightarrow> None | Some q \<Rightarrow> resolve ys q)"
  by (induction xs arbitrary: ptr) (auto split: option.splits)

text \<open>
  C6. When a segment between the first and the last of the path is not a known child of
  the namespace the walk has reached, \<^verbatim>\<open>attach_namespace\<close> changes nothing but the
  log, which gains the warning: the tree is as it was. (No statement of the method
  raises, so the model has no error result.) When the segments all resolve, to
  \<open>parent\<close>, as they do once the missing namespace has been attached, the call
  succeeds: it changes the tree only, the walk now ends in \<open>parent\<close> with the new
  namespace registered under the final segment, and the path leads to that namespace.
\<close>

theorem attach_namespace_needs_parents:
  "(resolve (intermediate p) (root_ns ctx) = None \<longrightarrow>
      attach_namespace p new ctx =
        ctx\<lparr>logger := logger ctx @ [Warn (''Cannot attach to namespace '' @ p)]\<rparr>
      \<and> root_ns (attach_namespace p new ctx) = root_ns ctx)
   \<and> (\<forall>parent. resolve (intermediate p) (root_ns ctx) = Some parent \<longrightarrow>
        (\<exists>root'. attach_namespace p new ctx = ctx\<lparr>root_ns := root'\<rparr>
           \<and> resolve (intermediate p) root' =
               Some (register_namespace (final_segment p) new parent)
           \<and> map_of (namespaces (register_namespace (final_segment p) new parent))
               (final_segment p) = Some new
           \<and> resolve (intermediate p @ [final_segment p]) root' = Some new))"
proof (intro conjI impI allI)
  assume r: "resolve (intermediate p) (root_ns ctx) = None"
  then show "attach_namespace p new ctx =
      ctx\<lparr>logger := logger ctx @ [Warn (''Cannot attach to namespace '' @ p)]\<rparr>"
    by (simp add: attach_namespace_def intermediate_def Let_def attach_walk_None)
  then show "root_ns (attach_namespace p new ctx) = root_ns ctx"
    by simp
next
  fix parent
  assume r: "resolve (intermediate p) (root_ns ctx) = Some parent"
  from attach_walk_Some[OF r, of "final_segment p" new]
  obtain root' where w: "attach_walk (intermediate p) (final_segment p) new (root_ns ctx) = Some root'"
    and r': "resolve (intermediate p) root' = Some (register_namespace (final_segment p) new parent)"
    by blast
  have a: "attach_namespace p new ctx = ctx\<lparr>root_ns := root'\<rparr>"
    using w by (simp add: attach_namespace_def intermediate_def final_segment_def Let_def)
  have m: "map_of (namespaces (register_namespace (final_segment p) new parent))
      (final_segment p) = Some new"
    by (simp add: register_namespace_def update_conv')
  have f: "resolve (intermediate p @ [final_segment p]) root' = Some new"
    using r' m by (simp add: resolve_append)
  show "\<exists>root'. attach_namespace p new ctx = ctx\<lparr>root_ns := root'\<rparr>
      \<and> resolve (intermediate p) root' = Some (register_namespace (final_segment p) new parent)
      \<and> map_of (namespaces (register_namespace (final_segment p) new parent))
          (final_segment p) = Some new
      \<and> resolve (intermediate p @ [final_segment p]) root' = Some new"
    using a r' m f by blast
qed

text \<open>
  The scenario of the claim on the context as constructed: \<^verbatim>\<open>/a/b\<close> cannot be
  attached while the root has no child \<^verbatim>\<open>a\<close>; once \<^verbatim>\<open>/a\<close> is attached, the same
  call succeeds.
\<close>

lemma intermediate_a_b: "intermediate ''/a/b'' = [''a''] \<and> final_segment ''/a/b'' = ''b''"
  by (simp add: intermediate_def final_segment_def py_split_def)

lemma attach_a:
  "root_ns (attach_namespace ''/a'' (Namespace [] []) Context) =
     Namespace [(''a'', Namespace [] [])] []"
  by (simp add: attach_namespace_def py_split_def Context_def RootNamespace_def
      register_namespace_def Let_def)

theorem attach_namespace_needs_parents_witness:
  "resolve (intermediate ''/a/b'') (root_ns Context) = None
   \<and> attach_namespace ''/a/b'' (Namespace [] []) Context =
       Context\<lparr>logger := logger Context @ [Warn (''Cannot attach to namespace '' @ ''/a/b'')]\<rparr>
   \<and> root_ns (attach_namespace ''/a/b'' (Namespace [] []) Context) = root_ns Context
   \<and> resolve (intermediate ''/a/b'')
       (root_ns (attach_namespace ''/a'' (Namespace [] []) Context)) = Some (Namespace [] [])
   \<and> (\<exists>root'. attach_namespace ''/a/b'' (Namespace [] [])
                 (attach_namespace ''/a'' (Namespace [] []) Context) =
               (attach_namespace ''/a'' (Namespace [] []) Context)\<lparr>root_ns := root'\<rparr>
        \<and> resolve [''a'', ''b''] root' = Some (Namespace [] []))"
proof -
  let ?a = "attach_namespace ''/a'' (Namespace [] []) Context"
  have n: "resolve (intermediate ''/a/b'') (root_ns Context) = None"
    by (simp add: intermediate_a_b Context_def RootNamespace_def)
  have s: "resolve (intermediate ''/a/b'') (root_ns ?a) = Some (Namespace [] [])"
    by (simp add: intermediate_a_b attach_a)
  have skipped: "attach_namespace ''/a/b'' (Namespace [] []) Context =
      Context\<lparr>logger := logger Context @ [Warn (''Cannot attach to namespace '' @ ''/a/b'')]\<rparr>
    \<and> root_ns (attach_namespace ''/a/b'' (Namespace [] []) Context) = root_ns Context"
    using attach_namespace_needs_parents[of "''/a/b''" Context "Namespace [] []"] n by blast
  have "\<exists>root'. attach_namespace ''/a/b'' (Namespace [] []) ?a = ?a\<lparr>root_ns := root'\<rparr>
      \<and> resolve (intermediate ''/a/b'' @ [final_segment ''/a/b'']) root' = Some (Namespace [] [])"
    using attach_namespace_needs_parents[of "''/a/b''" ?a "Namespace [] []"] s by blast
  then have attached: "\<exists>root'. attach_namespace ''/a/b'' (Namespace [] []) ?a = ?a\<lparr>root_ns := root'\<rparr>
      \<and> resolve [''a'', ''b''] root' = Some (Namespace [] [])"
    by (simp add: intermediate_a_b)
  show ?thesis using n s skipped attached by blast
qed

subsection \<open>Loading plugins\<close>

lemma plugins_attach_namespace: "plugins (attach_namespace p n c) = plugins c"
  by (simp add: attach_namespace_def Let_def split: option.splits)

lemma plugins_fold_attach:
  "plugins (fold (\<lambda>(p, n). attach_namespace p n) as c) = plugins c"
  by (induction as arbitrary: c) (auto simp: plugins_attach_namespace)

text \<open>
  A unit that exposes \<^verbatim>\<open>_init\<close>, the hook returning, is loaded at most once: a second
  call on the same path returns at once, whatever the file holds by then.
\<close>

lemma try_load_plugin_twice_with_init:
  assumes "p_init pl = Some h" and "raises h = None"
  shows "try_load_plugin again p (snd (try_load_plugin (Inr pl) p ctx)) =
           (None, snd (try_load_plugin (Inr pl) p ctx))"
proof (cases "plugins ctx p = None")
  case True
  then have "plugins (snd (try_load_plugin (Inr pl) p ctx)) p = Some pl"
    using assms by (simp add: try_load_plugin_def run_init_def Let_def plugins_fold_attach)
  then show ?thesis by (simp add: try_load_plugin_def)
next
  case False
  then show ?thesis by (simp add: try_load_plugin_def)
qed

text \<open>
  C4. Loading a path twice is to have the effect of loading it once, whichever hooks the
  unit exposes. A unit without \<^verbatim>\<open>_init\<close> is never entered in \<^verbatim>\<open>self.plugins\<close>, so
  the guard does not see it: on the context as constructed the first call executes the
  unit, and the second call executes it again.
\<close>

theorem try_load_plugin_twice_without_init:
  "executed (snd (try_load_plugin (Inr \<lparr>p_init = None, p_login = l\<rparr>) p Context)) = [p]
   \<and> plugins (snd (try_load_plugin (Inr \<lparr>p_init = None, p_login = l\<rparr>) p Context)) p = None
   \<and> executed (snd (try_load_plugin (Inr \<lparr>p_init = None, p_login = l\<rparr>) p
        (snd (try_load_plugin (Inr \<lparr>p_init = None, p_login = l\<rparr>) p Context)))) = [p, p]"
  by (simp add: try_load_plugin_def Context_def Let_def)

subsection \<open>The read-eval loop\<close>

lemma tokenize_foo_bar:
  "tokenize ''foo bar x y=1'' = Inr ([''foo'', ''bar'', ''x''], [''y'' \<mapsto> ''1''])"
  by (simp add: tokenize_defs char_defs)

lemma tokenize_dotdot: "tokenize ''..'' = Inr ([''..''], Map.empty)"
  by (simp add: tokenize_defs char_defs)

lemma tokenize_boom: "tokenize ''boom'' = Inr ([''boom''], Map.empty)"
  by (simp add: tokenize_defs char_defs)

text \<open>
  C2. Let the root hold one child namespace \<^verbatim>\<open>foo\<close> with one command \<^verbatim>\<open>bar\<close>, whose
  \<^verbatim>\<open>run\<close> returns on the arguments of this line, and let the cursor be at the root.
  The line \<^verbatim>\<open>foo bar x y=1\<close> then calls \<^verbatim>\<open>bar\<close> exactly once, with the positional
  arguments \<^verbatim>\<open>["x"]\<close> and the keyword arguments \<^verbatim>\<open>{"y": "1"}\<close>, and nothing else
  changes: the navigation stack is the stack before the line, the cursor at the root,
  and the output lock is as it was.
\<close>

theorem dispatch_foo_bar:
  assumes "run [''x''] [''y'' \<mapsto> ''1''] = None"
    and "path ml = [\<lparr>name = h, ns = foo_bar_root run\<rparr>]"
  shows "repl_line B ''foo bar x y=1'' ml =
           (None, ml\<lparr>events := events ml @ [Run ''bar'' [''x''] [''y'' \<mapsto> ''1'']]\<rparr>)"
  using assms
  by (simp add: repl_line_def strip_def char_defs tokenize_foo_bar try_command_def
      builtin_commands_def cd_def emit_event_def acquire_def release_def foo_bar_root_def Let_def)

theorem dispatch_foo_bar_witness:
  "path (MainLoop ''host'' (foo_bar_root (\<lambda>args kw. None))) =
     [\<lparr>name = ''host'', ns = foo_bar_root (\<lambda>args kw. None)\<rparr>]
   \<and> repl_line some_builtins ''foo bar x y=1'' (MainLoop ''host'' (foo_bar_root (\<lambda>args kw. None))) =
       (None, (MainLoop ''host'' (foo_bar_root (\<lambda>args kw. None)))
                \<lparr>events := [Run ''bar'' [''x''] [''y'' \<mapsto> ''1'']]\<rparr>)"
proof -
  let ?ml = "MainLoop ''host'' (foo_bar_root (\<lambda>args kw. None))"
  have r: "(\<lambda>args kw. None :: error option) [''x''] [''y'' \<mapsto> ''1''] = None"
    by simp
  have p: "path ?ml = [\<lparr>name = ''host'', ns = foo_bar_root (\<lambda>args kw. None)\<rparr>]"
    by (simp add: MainLoop_def)
  have e: "events ?ml = []"
    by (simp add: MainLoop_def)
  from dispatch_foo_bar[of "\<lambda>args kw. None" ?ml "''host''" some_builtins, OF r p]
  show ?thesis using p unfolding e by simp
qed

text \<open>
  The line \<^verbatim>\<open>..\<close> below the root: one frame is popped and the line is done, with no
  tokenizing and no dispatch.
\<close>

lemma dotdot_pops_one_frame:
  "length (path ml) > 1 \<Longrightarrow> repl_line B ''..'' ml = (None, ml\<lparr>path := butlast (path ml)\<rparr>)"
  by (simp add: repl_line_def strip_def char_defs Let_def)

text \<open>
  C8. At the root (a stack of one frame) the line \<^verbatim>\<open>..\<close> is to be a no-op: the stack
  unchanged, no further processing. The \<^verbatim>\<open>continue\<close> stands inside the test of the
  depth, so at the root the line goes on to the tokenizer and the dispatch as the
  token \<^verbatim>\<open>..\<close>. On an empty root the loop prints that the command was not found; on
  a root with a child namespace named \<^verbatim>\<open>..\<close> the cursor descends into it and the
  stack has two frames.
\<close>

theorem dotdot_at_root_is_dispatched:
  "repl_line B ''..'' (MainLoop h RootNamespace) =
     (None, (MainLoop h RootNamespace)\<lparr>events := [PrintNotFound]\<rparr>)
   \<and> path (snd (repl_line B ''..'' (MainLoop h dotdot_root))) =
       [\<lparr>name = h, ns = dotdot_root\<rparr>, \<lparr>name = ''..'', ns = Namespace [] []\<rparr>]"
  by (simp add: repl_line_def strip_def char_defs tokenize_dotdot try_command_def
      builtin_commands_def cd_def emit_event_def MainLoop_def RootNamespace_def
      dotdot_root_def Let_def)

text \<open>
  The lock around a command: when the token names a command of the current namespace,
  the lock is as before if \<^verbatim>\<open>run\<close> returns, and held once more if it raises.
\<close>

lemma try_command_lock:
  assumes "map_of (commands (ns (last (path ml)))) token = Some c"
  shows "output_lock (snd (snd (try_command token tokens kw oldpath nsfound ml))) =
           (if cmd_run c tokens kw = None then output_lock ml else Suc (output_lock ml))"
  using assms
  by (auto simp: try_command_def emit_event_def acquire_def release_def Let_def
      split: option.splits)

text \<open>
  C9. After every line the output lock is to be free again, also when the command
  raises. \<^verbatim>\<open>release\<close> follows \<^verbatim>\<open>run\<close> with no \<^verbatim>\<open>finally\<close>: on a root whose command
  \<^verbatim>\<open>boom\<close> raises \<^verbatim>\<open>RuntimeError\<close>, the line \<^verbatim>\<open>boom\<close> is caught and reported, the
  loop goes on to the next line, and the lock, free before the line, is held.
\<close>

theorem lock_held_after_raising_command:
  "repl_line B ''boom'' (MainLoop h boom_root) =
     (None, (MainLoop h boom_root)
              \<lparr>output_lock := 1,
               events := [Run ''boom'' [] Map.empty, PrintError (RuntimeError ''boom'')]\<rparr>)
   \<and> output_lock (MainLoop h boom_root) = 0
   \<and> output_lock (snd (repl_line B ''boom'' (MainLoop h boom_root))) = 1"
  by (simp add: repl_line_def strip_def char_defs tokenize_boom try_command_def
      builtin_commands_def cd_def emit_event_def acquire_def release_def MainLoop_def
      boom_root_def Let_def)

end
